theory Spec2Isabelle
  imports Main "HOL-Library.Word"
begin

unbundle bit_operations_syntax

section \<open>Data model (src/main.cpp, lines 5-25 and 126-130)\<close>

text \<open>
  \<^verbatim>\<open>using Word = uint8_t;\<close>  The registers of \<^verbatim>\<open>struct CPU\<close> are one 16-bit program
  counter and five bytes. C++ promotes every \<^verbatim>\<open>uint8_t\<close> and \<open>uint16_t\<close> operand
  of an arithmetic or bitwise operator to \<^verbatim>\<open>int\<close> and converts the result back on
  assignment. The model writes both conversions out: \<open>uint\<close> is the promotion, the
  operation is done on \<open>int\<close> (no intermediate value of the program leaves the range of
  a 32-bit \<^verbatim>\<open>int\<close>), and \<open>word_of_int\<close> is the conversion back, which reduces
  modulo \<open>2 ^ 8\<close> or \<open>2 ^ 16\<close>.
\<close>

type_synonym Word = "8 word"

record CPU =
  PC :: "16 word"
  AC :: Word
  X :: Word
  Y :: Word
  SR :: Word
  SP :: Word

text \<open>\<^verbatim>\<open>struct Flag\<close>: the masks are \<^verbatim>\<open>static constexpr int\<close>.\<close>

definition Flag_Negative :: int where "Flag_Negative = 0x80"
definition Flag_Overflow :: int where "Flag_Overflow = 0x40"
definition Flag_Ignored :: int where "Flag_Ignored = 0x20"
definition Flag_Break :: int where "Flag_Break = 0x10"
definition Flag_Decimal :: int where "Flag_Decimal = 0x08"
definition Flag_Interrupt :: int where "Flag_Interrupt = 0x04"
definition Flag_Zero :: int where "Flag_Zero = 0x02"
definition Flag_Carry :: int where "Flag_Carry = 0x01"

section \<open>Flag primitives (lines 27-40)\<close>

text \<open>\<^verbatim>\<open>void clear_flags(Word flags) { SR &= ~flags; }\<close>\<close>

definition clear_flags :: "CPU \<Rightarrow> Word \<Rightarrow> CPU" where
  "clear_flags c flags = c\<lparr>SR := word_of_int (uint (SR c) AND NOT (uint flags))\<rparr>"

text \<open>\<^verbatim>\<open>void set_flags(Word flags) { SR |= flags; }\<close>\<close>

definition set_flags :: "CPU \<Rightarrow> Word \<Rightarrow> CPU" where
  "set_flags c flags = c\<lparr>SR := word_of_int (uint (SR c) OR uint flags)\<rparr>"

text \<open>
  \<^verbatim>\<open>void assign_flags(Word flags, bool value) {
      SR &= ~flags;
      SR |= value ? flags : 0;
  }\<close>
\<close>

definition assign_flags :: "CPU \<Rightarrow> Word \<Rightarrow> bool \<Rightarrow> CPU" where
  "assign_flags c flags val =
     (let c1 = c\<lparr>SR := word_of_int (uint (SR c) AND NOT (uint flags))\<rparr>
      in c1\<lparr>SR := word_of_int (uint (SR c1) OR (if val then uint flags else 0))\<rparr>)"

text \<open>\<^verbatim>\<open>void update_zero_flag(Word w) { assign_flags(Flag::Zero, w == 0); }\<close>\<close>

definition update_zero_flag :: "CPU \<Rightarrow> Word \<Rightarrow> CPU" where
  "update_zero_flag c w = assign_flags c (word_of_int Flag_Zero) (w = 0)"

text \<open>
  \<^verbatim>\<open>void update_negative_flag(Word w) { assign_flags(Flag::Negative, w & (1 << 7)); }\<close>
  The \<^verbatim>\<open>int\<close> \<^verbatim>\<open>w & (1 << 7)\<close> becomes the \<^verbatim>\<open>bool\<close> argument: true when it is
  not zero.
\<close>

definition update_negative_flag :: "CPU \<Rightarrow> Word \<Rightarrow> CPU" where
  "update_negative_flag c w =
     assign_flags c (word_of_int Flag_Negative) (uint w AND push_bit 7 1 \<noteq> 0)"

section \<open>Register operations (lines 42-122)\<close>

text \<open>
  \<^verbatim>\<open>decrement\<close>, \<^verbatim>\<open>increment\<close> and \<^verbatim>\<open>rol\<close> take their operand by reference
  (\<^verbatim>\<open>Word& w\<close>), read it, write it, and besides touch only \<open>SR\<close>. The callers in the
  source pass \<open>X\<close> or \<open>Y\<close>; \<^verbatim>\<open>inc\<close> and \<^verbatim>\<open>rol\<close> are meant for an operand byte.
  The model takes the byte the reference designates and returns its new contents next to
  the new registers; this is what the code does for every referenced byte other than
  \<open>SR\<close> itself.
\<close>

definition decrement :: "CPU \<Rightarrow> Word \<Rightarrow> CPU \<times> Word" where
  "decrement c w =
     (let w1 = word_of_int (uint w - 1) :: Word;
          c1 = update_zero_flag c w1;
          c2 = update_negative_flag c1 w1
      in (c2, w1))"

definition increment :: "CPU \<Rightarrow> Word \<Rightarrow> CPU \<times> Word" where
  "increment c w =
     (let w1 = word_of_int (uint w + 1) :: Word;
          c1 = update_zero_flag c w1;
          c2 = update_negative_flag c1 w1
      in (c2, w1))"

text \<open>
  \<^verbatim>\<open>void transfer(Word& dst, Word src) {
      dst = src;
      update_zero_flag(AC);
      update_negative_flag(AC);
  }\<close>
  The flags are computed from \<open>AC\<close> as it is after the store, so it matters whether
  \<open>dst\<close> is \<open>AC\<close>: the destination is a register designator here.
\<close>

datatype Ref = Ref_AC | Ref_X | Ref_Y | Ref_SP

fun store :: "CPU \<Rightarrow> Ref \<Rightarrow> Word \<Rightarrow> CPU" where
  "store c Ref_AC v = c\<lparr>AC := v\<rparr>"
| "store c Ref_X v = c\<lparr>X := v\<rparr>"
| "store c Ref_Y v = c\<lparr>Y := v\<rparr>"
| "store c Ref_SP v = c\<lparr>SP := v\<rparr>"

fun load :: "CPU \<Rightarrow> Ref \<Rightarrow> Word" where
  "load c Ref_AC = AC c"
| "load c Ref_X = X c"
| "load c Ref_Y = Y c"
| "load c Ref_SP = SP c"

definition transfer :: "CPU \<Rightarrow> Ref \<Rightarrow> Word \<Rightarrow> CPU" where
  "transfer c dst src =
     (let c1 = store c dst src;
          c2 = update_zero_flag c1 (AC c1)
      in update_negative_flag c2 (AC c2))"

definition nop :: "CPU \<Rightarrow> CPU" where
  "nop c = c"

text \<open>\<^verbatim>\<open>void eor(Word w) { AC ^= w; update_zero_flag(AC); update_negative_flag(AC); }\<close>\<close>

definition eor :: "CPU \<Rightarrow> Word \<Rightarrow> CPU" where
  "eor c w =
     (let c1 = c\<lparr>AC := word_of_int (uint (AC c) XOR uint w)\<rparr>;
          c2 = update_zero_flag c1 (AC c1)
      in update_negative_flag c2 (AC c2))"

text \<open>\<^verbatim>\<open>void ora(Word w) { AC |= w; update_zero_flag(AC); update_negative_flag(AC); }\<close>\<close>

definition ora :: "CPU \<Rightarrow> Word \<Rightarrow> CPU" where
  "ora c w =
     (let c1 = c\<lparr>AC := word_of_int (uint (AC c) OR uint w)\<rparr>;
          c2 = update_zero_flag c1 (AC c1)
      in update_negative_flag c2 (AC c2))"

text \<open>
  \<^verbatim>\<open>void adc(Word w) {
      AC += w + (SR & Flag::Carry);
      update_zero_flag(AC);
      update_negative_flag(AC);
      // TODO update carry and overflow flags
  }\<close>
\<close>

definition adc :: "CPU \<Rightarrow> Word \<Rightarrow> CPU" where
  "adc c w =
     (let c1 = c\<lparr>AC := word_of_int (uint (AC c) + (uint w + (uint (SR c) AND Flag_Carry)))\<rparr>;
          c2 = update_zero_flag c1 (AC c1)
      in update_negative_flag c2 (AC c2))"

text \<open>
  \<^verbatim>\<open>void sbc(Word w) {
      AC -= w + (1 - (SR & Flag::Carry));
      update_zero_flag(AC);
      update_negative_flag(AC);
      // TODO update carry and overflow flags
  }\<close>
\<close>

definition sbc :: "CPU \<Rightarrow> Word \<Rightarrow> CPU" where
  "sbc c w =
     (let c1 = c\<lparr>AC := word_of_int (uint (AC c) - (uint w + (1 - (uint (SR c) AND Flag_Carry))))\<rparr>;
          c2 = update_zero_flag c1 (AC c1)
      in update_negative_flag c2 (AC c2))"

text \<open>
  \<^verbatim>\<open>void rol(Word& w) {
      Word new_carry = w >> 7;
      w = (w << 1) | (SR & Flag::Carry);
      update_zero_flag(w);
      update_negative_flag(w);
      assign_flags(Flag::Carry, new_carry);
  }\<close>
\<close>

definition rol :: "CPU \<Rightarrow> Word \<Rightarrow> CPU \<times> Word" where
  "rol c w =
     (let new_carry = word_of_int (drop_bit 7 (uint w)) :: Word;
          w1 = word_of_int (push_bit 1 (uint w) OR (uint (SR c) AND Flag_Carry)) :: Word;
          c1 = update_zero_flag c w1;
          c2 = update_negative_flag c1 w1
      in (assign_flags c2 (word_of_int Flag_Carry) (new_carry \<noteq> 0), w1))"

definition lda :: "CPU \<Rightarrow> Word \<Rightarrow> CPU" where "lda c w = transfer c Ref_AC w"
definition ldx :: "CPU \<Rightarrow> Word \<Rightarrow> CPU" where "ldx c w = transfer c Ref_X w"
definition ldy :: "CPU \<Rightarrow> Word \<Rightarrow> CPU" where "ldy c w = transfer c Ref_Y w"

definition dex :: "CPU \<Rightarrow> CPU" where
  "dex c = (case decrement c (X c) of (c1, w1) \<Rightarrow> c1\<lparr>X := w1\<rparr>)"
definition dey :: "CPU \<Rightarrow> CPU" where
  "dey c = (case decrement c (Y c) of (c1, w1) \<Rightarrow> c1\<lparr>Y := w1\<rparr>)"
definition inx :: "CPU \<Rightarrow> CPU" where
  "inx c = (case increment c (X c) of (c1, w1) \<Rightarrow> c1\<lparr>X := w1\<rparr>)"
definition iny :: "CPU \<Rightarrow> CPU" where
  "iny c = (case increment c (Y c) of (c1, w1) \<Rightarrow> c1\<lparr>Y := w1\<rparr>)"

definition tax :: "CPU \<Rightarrow> CPU" where "tax c = transfer c Ref_X (AC c)"
definition tay :: "CPU \<Rightarrow> CPU" where "tay c = transfer c Ref_Y (AC c)"
definition txa :: "CPU \<Rightarrow> CPU" where "txa c = transfer c Ref_AC (X c)"
definition tya :: "CPU \<Rightarrow> CPU" where "tya c = transfer c Ref_AC (Y c)"
definition tsx :: "CPU \<Rightarrow> CPU" where "tsx c = transfer c Ref_X (SP c)"
definition txs :: "CPU \<Rightarrow> CPU" where "txs c = c\<lparr>SP := X c\<rparr>"

definition clc :: "CPU \<Rightarrow> CPU" where "clc c = clear_flags c (word_of_int Flag_Carry)"
definition cld :: "CPU \<Rightarrow> CPU" where "cld c = clear_flags c (word_of_int Flag_Decimal)"
definition cli :: "CPU \<Rightarrow> CPU" where "cli c = clear_flags c (word_of_int Flag_Interrupt)"
definition clv :: "CPU \<Rightarrow> CPU" where "clv c = clear_flags c (word_of_int Flag_Overflow)"

definition sec :: "CPU \<Rightarrow> CPU" where "sec c = set_flags c (word_of_int Flag_Carry)"
definition sed :: "CPU \<Rightarrow> CPU" where "sed c = set_flags c (word_of_int Flag_Decimal)"
definition sei :: "CPU \<Rightarrow> CPU" where "sei c = set_flags c (word_of_int Flag_Interrupt)"

section \<open>The machine (lines 126-223)\<close>

text \<open>
  \<^verbatim>\<open>std::array<Word, memory_size> memory\<close> with \<^verbatim>\<open>memory_size = 1 << 16\<close>: one byte
  for each of the \<open>2 ^ 16\<close> values of a \<open>16 word\<close>, and no others.
\<close>

record Machine =
  memory :: "16 word \<Rightarrow> Word"
  cpu :: CPU

definition memory_size :: int where
  "memory_size = push_bit 16 1"

text \<open>
  What the C++ leaves undefined is a fault of the model: indexing \<^verbatim>\<open>memory\<close> past its
  end, and reading a local variable that no branch assigned.
\<close>

datatype fault = OutOfBounds | Unassigned

text \<open>
  \<^verbatim>\<open>memory[i]\<close> for an index computed as an \<^verbatim>\<open>int\<close>: \<^verbatim>\<open>std::array::operator[]\<close>
  does no bounds check, and an index that is not below \<^verbatim>\<open>memory_size\<close> is outside
  the array.
\<close>

definition memory_at :: "Machine \<Rightarrow> int \<Rightarrow> fault + Word" where
  "memory_at m i =
     (if 0 \<le> i \<and> i < memory_size then Inr (memory m (word_of_int i)) else Inl OutOfBounds)"

text \<open>
  \<^verbatim>\<open>Word read_word(uint16_t address) { return memory[address]; }\<close>
  The index is a \<^verbatim>\<open>uint16_t\<close>, so it is always inside the array.
\<close>

definition read_word :: "Machine \<Rightarrow> 16 word \<Rightarrow> Word" where
  "read_word m address = memory m address"

text \<open>
  \<^verbatim>\<open>uint16_t read_long(uint16_t address) {
      return uint16_t(memory[address + 1]) << 8 | memory[address];
  }\<close>
  \<^verbatim>\<open>address + 1\<close> is an \<^verbatim>\<open>int\<close>: it is not reduced modulo \<open>2 ^ 16\<close> before it
  indexes the array.
\<close>

definition read_long :: "Machine \<Rightarrow> 16 word \<Rightarrow> fault + 16 word" where
  "read_long m address =
     (case memory_at m (uint address + 1) of
        Inl e \<Rightarrow> Inl e
      | Inr hi \<Rightarrow>
          Inr (word_of_int (push_bit 8 (uint (ucast hi :: 16 word)) OR uint (memory m address))))"

text \<open>
  Lines 164-166 of \<^verbatim>\<open>normal_dispatch\<close>:
  \<^verbatim>\<open>Word lo_op = opcode & 0x0f;
  Word hi_op = (opcode & 0xf0) >> 4;
  Word addressing_mode = ((lo_op - 1) >> 1) | (hi_op & 0x01);\<close>
  \<^verbatim>\<open>lo_op - 1\<close> is an \<^verbatim>\<open>int\<close> and is \<open>-1\<close> for \<open>lo_op = 0\<close>; \<open>drop_bit\<close> on
  \<open>int\<close> is the arithmetic shift.
\<close>

definition addressing_mode :: "Word \<Rightarrow> Word" where
  "addressing_mode opcode =
     (let lo_op = word_of_int (uint opcode AND 0x0f) :: Word;
          hi_op = word_of_int (drop_bit 4 (uint opcode AND 0xf0)) :: Word
      in word_of_int (drop_bit 1 (uint lo_op - 1) OR (uint hi_op AND 0x01)))"

text \<open>
  The \<^verbatim>\<open>switch (addressing_mode)\<close> of lines 168-201, which assigns the locals
  \<^verbatim>\<open>address\<close> and \<^verbatim>\<open>width\<close>. It has no \<^verbatim>\<open>default\<close>: for a value above 7 both
  locals stay unassigned, and lines 204-205 read them.
  \<^verbatim>\<open>read_word(cpu.PC + 1)\<close> converts the \<^verbatim>\<open>int\<close> \<^verbatim>\<open>cpu.PC + 1\<close> to the
  \<^verbatim>\<open>uint16_t\<close> parameter; so does \<^verbatim>\<open>read_long(...)\<close> with its argument.
\<close>

definition resolve_operand :: "Machine \<Rightarrow> Word \<Rightarrow> fault + (16 word \<times> Word)" where
  "resolve_operand m mode =
     (let pc = PC (cpu m); x = X (cpu m); y = Y (cpu m) in
      if mode = 0 then
        (case read_long m (word_of_int (uint (read_word m (word_of_int (uint pc + 1))) + uint x)) of
           Inl e \<Rightarrow> Inl e
         | Inr r \<Rightarrow> Inr (r, 2))
      else if mode = 1 then
        (case read_long m (ucast (read_word m (word_of_int (uint pc + 1)))) of
           Inl e \<Rightarrow> Inl e
         | Inr r \<Rightarrow> Inr (word_of_int (uint r + uint y), 2))
      else if mode = 2 then
        Inr (ucast (read_word m (word_of_int (uint pc + 1))), 2)
      else if mode = 3 then
        Inr (ucast (word_of_int (uint (read_word m (word_of_int (uint pc + 1))) + uint x) :: Word), 2)
      else if mode = 4 then
        Inr (word_of_int (uint pc + 1), 2)
      else if mode = 5 then
        (case read_long m (word_of_int (uint pc + 1)) of
           Inl e \<Rightarrow> Inl e
         | Inr r \<Rightarrow> Inr (word_of_int (uint r + uint y), 3))
      else if mode = 6 then
        (case read_long m (word_of_int (uint pc + 1)) of
           Inl e \<Rightarrow> Inl e
         | Inr r \<Rightarrow> Inr (r, 3))
      else if mode = 7 then
        (case read_long m (word_of_int (uint pc + 1)) of
           Inl e \<Rightarrow> Inl e
         | Inr r \<Rightarrow> Inr (word_of_int (uint r + uint x), 3))
      else Inl Unassigned)"

text \<open>
  \<^verbatim>\<open>void normal_dispatch(Word opcode)\<close>, whose last lines are
  \<^verbatim>\<open>// TODO: choose the right instruction
  cpu.adc(memory[address]);
  cpu.PC += width;\<close>
\<close>

definition normal_dispatch :: "Machine \<Rightarrow> Word \<Rightarrow> fault + Machine" where
  "normal_dispatch m opcode =
     (case resolve_operand m (addressing_mode opcode) of
        Inl e \<Rightarrow> Inl e
      | Inr (address, width) \<Rightarrow>
          (let c1 = adc (cpu m) (memory m address)
           in Inr (m\<lparr>cpu := c1\<lparr>PC := word_of_int (uint (PC c1) + uint width)\<rparr>\<rparr>)))"

text \<open>
  \<^verbatim>\<open>void execute_instruction() {
      Word opcode = read_word(cpu.PC);
      Word lo_op = opcode & 0x0f;
      Word hi_op = opcode >> 4;
      switch (lo_op) {
          case 0x01:
          case 0x05: case 0x06:
          case 0x09:
          case 0x0D: case 0x0E:
          normal_dispatch(opcode);
      }
  }\<close>
  The function returns nothing; for every other value of \<^verbatim>\<open>lo_op\<close> it falls out of
  the \<^verbatim>\<open>switch\<close>. \<open>recognized\<close> is the set of its case labels. A result \<open>Inr m'\<close> is
  a normal return that leaves the machine in state \<open>m'\<close>.
\<close>

definition recognized :: "Word \<Rightarrow> bool" where
  "recognized lo_op \<longleftrightarrow> lo_op \<in> {0x01, 0x05, 0x06, 0x09, 0x0D, 0x0E}"

definition execute_instruction :: "Machine \<Rightarrow> fault + Machine" where
  "execute_instruction m =
     (let opcode = read_word m (PC (cpu m));
          lo_op = word_of_int (uint opcode AND 0x0f) :: Word;
          hi_op = word_of_int (drop_bit 4 (uint opcode)) :: Word
      in if recognized lo_op then normal_dispatch m opcode else Inr m)"

section \<open>Example states\<close>

text \<open>Registers and memory all zero.\<close>

definition zero_machine :: Machine where
  "zero_machine =
     \<lparr>memory = (\<lambda>_. 0), cpu = \<lparr>PC = 0, AC = 0, X = 0, Y = 0, SR = 0, SP = 0\<rparr>\<rparr>"

text \<open>The accumulator holds \<open>0x50\<close> and every flag is clear.\<close>

definition adc_example :: CPU where
  "adc_example = \<lparr>PC = 0, AC = 0x50, X = 0, Y = 0, SR = 0, SP = 0\<rparr>"

text \<open>The accumulator holds 1, \<open>X\<close> holds 5 and every flag is clear.\<close>

definition ldx_example :: CPU where
  "ldx_example = \<lparr>PC = 0, AC = 0x01, X = 0x05, Y = 0, SR = 0, SP = 0\<rparr>"

text \<open>
  A two-byte instruction at address 0 with the operand byte 1, and 1 in the accumulator.
  With \<open>0x09\<close> (\<open>ORA #\<close>), \<open>0x29\<close> (\<open>AND #\<close>), \<open>0x49\<close> (\<open>EOR #\<close>), \<open>0x69\<close> (\<open>ADC #\<close>)
  the low nibble is 9 and the high nibble is even: the immediate mode.
\<close>

definition immediate_machine :: "Word \<Rightarrow> Machine" where
  "immediate_machine opcode =
     \<lparr>memory = (\<lambda>_. 0)(0 := opcode, 1 := 0x01),
      cpu = \<lparr>PC = 0, AC = 0x01, X = 0, Y = 0, SR = 0, SP = 0\<rparr>\<rparr>"

text \<open>
  \<open>0x61\<close> (low nibble 1, even high nibble: indexed indirect) at \<open>0x0200\<close> with the
  zero-page operand \<open>0xFF\<close> and \<open>X = 1\<close>. Page zero holds the pointer \<open>0x1234\<close> at
  \<open>0x00\<close>, page one the pointer \<open>0x5678\<close> at \<open>0x0100\<close>.
\<close>

definition indexed_indirect_machine :: Machine where
  "indexed_indirect_machine =
     \<lparr>memory = (\<lambda>_. 0)(0x0200 := 0x61, 0x0201 := 0xFF,
                          0x0000 := 0x34, 0x0001 := 0x12,
                          0x0100 := 0x78, 0x0101 := 0x56,
                          0x1234 := 0x11, 0x5678 := 0x22),
      cpu = \<lparr>PC = 0x0200, AC = 0, X = 0x01, Y = 0, SR = 0, SP = 0\<rparr>\<rparr>"

text \<open>\<open>0x6D\<close> (low nibble \<open>0xD\<close>, even high nibble: absolute) in the last two bytes.\<close>

definition top_of_memory_machine :: Machine where
  "top_of_memory_machine =
     \<lparr>memory = (\<lambda>_. 0)(0xFFFE := 0x6D),
      cpu = \<lparr>PC = 0xFFFE, AC = 0, X = 0, Y = 0, SR = 0, SP = 0\<rparr>\<rparr>"

text \<open>
  \<open>0x69\<close> with operand 0 at address 0, and \<open>0x02\<close> (low nibble 2) at address 2. The
  two states differ in \<open>PC\<close> only.
\<close>

definition implemented_machine :: Machine where
  "implemented_machine =
     \<lparr>memory = (\<lambda>_. 0)(0 := 0x69, 2 := 0x02),
      cpu = \<lparr>PC = 0, AC = 0, X = 0, Y = 0, SR = 0x02, SP = 0\<rparr>\<rparr>"

definition unimplemented_machine :: Machine where
  "unimplemented_machine =
     \<lparr>memory = (\<lambda>_. 0)(0 := 0x69, 2 := 0x02),
      cpu = \<lparr>PC = 2, AC = 0, X = 0, Y = 0, SR = 0x02, SP = 0\<rparr>\<rparr>"

section \<open>The conversions, on words\<close>

lemma bit_Word_less: "bit (w :: Word) n \<Longrightarrow> n < 8"
  by (drule bit_imp_le_length) simp

lemma clear_flags_eq: "clear_flags c f = c\<lparr>SR := SR c AND NOT f\<rparr>"
  by (simp add: clear_flags_def of_int_and_eq of_int_not_eq)

lemma set_flags_eq: "set_flags c f = c\<lparr>SR := SR c OR f\<rparr>"
  by (simp add: set_flags_def of_int_or_eq)

lemma assign_flags_eq:
  "assign_flags c f b = c\<lparr>SR := (SR c AND NOT f) OR (if b then f else 0)\<rparr>"
  by (simp add: assign_flags_def Let_def of_int_and_eq of_int_not_eq of_int_or_eq)

lemma uint_and_bit7: "(uint (w :: Word) AND 128 \<noteq> 0) = bit w 7"
proof -
  have "(uint w AND 2 ^ 7 \<noteq> 0) = bit w 7"
    unfolding and_exp_eq_0_iff_not_bit bit_uint_iff by simp
  then show ?thesis by simp
qed

lemma update_zero_flag_eq:
  "update_zero_flag c w = c\<lparr>SR := (SR c AND NOT 0x02) OR (if w = 0 then 0x02 else 0)\<rparr>"
  by (simp add: update_zero_flag_def assign_flags_eq Flag_Zero_def)

lemma update_negative_flag_eq:
  "update_negative_flag c w = c\<lparr>SR := (SR c AND NOT 0x80) OR (if bit w 7 then 0x80 else 0)\<rparr>"
  by (simp add: update_negative_flag_def assign_flags_eq Flag_Negative_def uint_and_bit7)

lemma bit_Word_1: "bit (1 :: Word) n = (n = 0)"
  by (simp add: bit_1_iff)

lemma bit_Word_2: "bit (2 :: Word) n = (n = 1)"
proof -
  have "bit (2 ^ 1 :: Word) n = (n = 1)" unfolding bit_exp_iff by auto
  then show ?thesis by simp
qed

lemma bit_Word_4: "bit (4 :: Word) n = (n = 2)"
proof -
  have "bit (2 ^ 2 :: Word) n = (n = 2)" unfolding bit_exp_iff by auto
  then show ?thesis by simp
qed

lemma bit_Word_8: "bit (8 :: Word) n = (n = 3)"
proof -
  have "bit (2 ^ 3 :: Word) n = (n = 3)" unfolding bit_exp_iff by auto
  then show ?thesis by simp
qed

lemma bit_Word_64: "bit (64 :: Word) n = (n = 6)"
proof -
  have "bit (2 ^ 6 :: Word) n = (n = 6)" unfolding bit_exp_iff by auto
  then show ?thesis by simp
qed

lemma bit_Word_128: "bit (128 :: Word) n = (n = 7)"
proof -
  have "bit (2 ^ 7 :: Word) n = (n = 7)" unfolding bit_exp_iff by auto
  then show ?thesis by simp
qed

lemmas bit_Word_flag =
  bit_Word_1 bit_Word_2 bit_Word_4 bit_Word_8 bit_Word_64 bit_Word_128

section \<open>The flag primitives and the single-flag instructions\<close>

lemma clear_flags_bit:
  "bit (SR (clear_flags c flags)) n = (bit (SR c) n \<and> \<not> bit flags n)"
  by (auto simp add: clear_flags_eq bit_simps dest: bit_Word_less)

lemma set_flags_bit:
  "bit (SR (set_flags c flags)) n = (bit (SR c) n \<or> bit flags n)"
  by (auto simp add: set_flags_eq bit_simps)

lemma assign_flags_bit:
  "bit (SR (assign_flags c flags b)) n = (if bit flags n then b else bit (SR c) n)"
  by (auto simp add: assign_flags_eq bit_simps dest: bit_Word_less)

lemma flag_primitives_registers:
  "(clear_flags c flags)\<lparr>SR := SR c\<rparr> = c"
  "(set_flags c flags)\<lparr>SR := SR c\<rparr> = c"
  "(assign_flags c flags b)\<lparr>SR := SR c\<rparr> = c"
  by (simp_all add: clear_flags_eq set_flags_eq assign_flags_eq)

lemma clear_instructions_bit:
  "bit (SR (clc c)) n = (bit (SR c) n \<and> n \<noteq> 0)"
  "bit (SR (cld c)) n = (bit (SR c) n \<and> n \<noteq> 3)"
  "bit (SR (cli c)) n = (bit (SR c) n \<and> n \<noteq> 2)"
  "bit (SR (clv c)) n = (bit (SR c) n \<and> n \<noteq> 6)"
  unfolding clc_def cld_def cli_def clv_def clear_flags_bit
    Flag_Carry_def Flag_Decimal_def Flag_Interrupt_def Flag_Overflow_def
  by (simp_all only: word_of_int_numeral word_of_int_1 bit_Word_flag)

lemma set_instructions_bit:
  "bit (SR (sec c)) n = (bit (SR c) n \<or> n = 0)"
  "bit (SR (sed c)) n = (bit (SR c) n \<or> n = 3)"
  "bit (SR (sei c)) n = (bit (SR c) n \<or> n = 2)"
  unfolding sec_def sed_def sei_def set_flags_bit
    Flag_Carry_def Flag_Decimal_def Flag_Interrupt_def
  by (simp_all only: word_of_int_numeral word_of_int_1 bit_Word_flag)

lemma flag_instructions_registers:
  "(clc c)\<lparr>SR := SR c\<rparr> = c" "(cld c)\<lparr>SR := SR c\<rparr> = c"
  "(cli c)\<lparr>SR := SR c\<rparr> = c" "(clv c)\<lparr>SR := SR c\<rparr> = c"
  "(sec c)\<lparr>SR := SR c\<rparr> = c" "(sed c)\<lparr>SR := SR c\<rparr> = c"
  "(sei c)\<lparr>SR := SR c\<rparr> = c"
  by (simp_all add: clc_def cld_def cli_def clv_def sec_def sed_def sei_def
      flag_primitives_registers)

text \<open>
  C9. For every status register and mask \<open>flags\<close>, bit \<open>n\<close> of \<open>SR\<close> after \<open>clear_flags\<close>,
  \<open>set_flags\<close> and \<open>assign_flags\<close> is the old bit \<open>n\<close> wherever \<open>flags\<close> has no bit \<open>n\<close>
  (and is cleared, set, or the given boolean where it has one), and no other register
  changes. So \<open>CLC\<close>, \<open>CLD\<close>, \<open>CLI\<close>, \<open>CLV\<close> clear bit 0, 3, 2, 6 and \<open>SEC\<close>, \<open>SED\<close>,
  \<open>SEI\<close> set bit 0, 3, 2; every other bit of \<open>SR\<close> and every data register is as before.
\<close>

theorem flag_operations_frame:
  "bit (SR (clear_flags c flags)) n = (bit (SR c) n \<and> \<not> bit flags n)
   \<and> bit (SR (set_flags c flags)) n = (bit (SR c) n \<or> bit flags n)
   \<and> bit (SR (assign_flags c flags b)) n = (if bit flags n then b else bit (SR c) n)
   \<and> (clear_flags c flags)\<lparr>SR := SR c\<rparr> = c
   \<and> (set_flags c flags)\<lparr>SR := SR c\<rparr> = c
   \<and> (assign_flags c flags b)\<lparr>SR := SR c\<rparr> = c
   \<and> bit (SR (clc c)) n = (bit (SR c) n \<and> n \<noteq> 0) \<and> (clc c)\<lparr>SR := SR c\<rparr> = c
   \<and> bit (SR (cld c)) n = (bit (SR c) n \<and> n \<noteq> 3) \<and> (cld c)\<lparr>SR := SR c\<rparr> = c
   \<and> bit (SR (cli c)) n = (bit (SR c) n \<and> n \<noteq> 2) \<and> (cli c)\<lparr>SR := SR c\<rparr> = c
   \<and> bit (SR (clv c)) n = (bit (SR c) n \<and> n \<noteq> 6) \<and> (clv c)\<lparr>SR := SR c\<rparr> = c
   \<and> bit (SR (sec c)) n = (bit (SR c) n \<or> n = 0) \<and> (sec c)\<lparr>SR := SR c\<rparr> = c
   \<and> bit (SR (sed c)) n = (bit (SR c) n \<or> n = 3) \<and> (sed c)\<lparr>SR := SR c\<rparr> = c
   \<and> bit (SR (sei c)) n = (bit (SR c) n \<or> n = 2) \<and> (sei c)\<lparr>SR := SR c\<rparr> = c"
  by (intro conjI clear_flags_bit set_flags_bit assign_flags_bit flag_primitives_registers
      clear_instructions_bit set_instructions_bit flag_instructions_registers)

section \<open>Rotate left\<close>

lemma word_of_int_drop_bit7: "(word_of_int (drop_bit 7 (uint (w :: Word))) :: Word) = drop_bit 7 w"
  by (rule bit_word_eqI) (auto simp add: bit_simps dest: bit_Word_less)

lemma drop_bit7_nonzero: "(drop_bit 7 (w :: Word) \<noteq> 0) = bit w 7"
proof
  assume "drop_bit 7 w \<noteq> 0"
  then obtain n where "bit (drop_bit 7 w) n"
    by (auto simp add: bit_eq_iff)
  then have b: "bit w (7 + n)"
    by (simp add: bit_simps)
  then have "7 + n < 8"
    by (rule bit_Word_less)
  then have "n = 0"
    by simp
  with b show "bit w 7"
    by simp
next
  assume "bit w 7"
  then have "bit (drop_bit 7 w) 0"
    by (simp add: bit_simps)
  then show "drop_bit 7 w \<noteq> 0"
    by auto
qed

lemma uint_and_1: "uint (w :: Word) AND 1 = of_bool (bit w 0)"
proof -
  have "odd (uint w) = bit (uint w) 0"
    by (simp add: bit_0)
  also have "\<dots> = bit w 0"
    unfolding bit_uint_iff by simp
  finally have "odd (uint w) = bit w 0" .
  then show ?thesis
    unfolding and_one_eq mod_2_eq_odd by simp
qed

lemma rol_operand: "snd (rol c w) = push_bit 1 w OR of_bool (bit (SR c) 0)"
  by (simp add: rol_def Let_def Flag_Carry_def uint_and_1 of_int_or_eq of_int_push_bit)

lemma rol_operand_uint:
  "uint (snd (rol c w)) = (2 * uint w + of_bool (bit (SR c) 0)) mod 256"
proof -
  have "push_bit 1 (uint w) OR of_bool (bit (SR c) 0) = 2 * uint w + of_bool (bit (SR c) 0)"
    by (cases "bit (SR c) 0") (simp_all add: or_one_eq)
  moreover have "uint (snd (rol c w)) =
      (push_bit 1 (uint w) OR of_bool (bit (SR c) 0)) mod 2 ^ LENGTH(8)"
    unfolding rol_def Let_def snd_conv Flag_Carry_def uint_and_1 uint_word_of_int ..
  ultimately show ?thesis
    by simp
qed

lemma rol_flags:
  "bit (SR (fst (rol c w))) n =
     (if n = 0 then bit w 7
      else if n = 1 then snd (rol c w) = 0
      else if n = 7 then bit (snd (rol c w)) 7
      else bit (SR c) n)"
proof -
  have "bit (SR (fst (rol c w))) n =
      (if bit (1 :: Word) n then bit w 7
       else if bit (128 :: Word) n then bit (snd (rol c w)) 7
       else if bit (2 :: Word) n then snd (rol c w) = 0
       else bit (SR c) n)"
    by (simp add: rol_def Let_def update_zero_flag_def update_negative_flag_def
        assign_flags_bit Flag_Carry_def Flag_Zero_def Flag_Negative_def
        uint_and_bit7 word_of_int_drop_bit7 drop_bit7_nonzero del: bit_numeral_word_iff)
  then show ?thesis
    unfolding bit_Word_flag by auto
qed

lemma rol_registers: "(fst (rol c w))\<lparr>SR := SR c\<rparr> = c"
  by (simp add: rol_def Let_def update_zero_flag_def update_negative_flag_def assign_flags_eq)

lemma rol_example:
  "snd (rol (clc c) 0x80) = 0"
  "bit (SR (fst (rol (clc c) 0x80))) 0"
  "bit (SR (fst (rol (clc c) 0x80))) 1"
proof -
  have c0: "\<not> bit (SR (clc c)) 0"
    by (simp add: clear_instructions_bit)
  show w0: "snd (rol (clc c) 0x80) = 0"
    unfolding rol_operand using c0 by simp
  show "bit (SR (fst (rol (clc c) 0x80))) 0"
    unfolding rol_flags by (simp add: bit_Word_128)
  show "bit (SR (fst (rol (clc c) 0x80))) 1"
    unfolding rol_flags using w0 by simp
qed

text \<open>
  C8. For every operand byte \<open>w\<close> and every register state, \<open>rol\<close> writes back
  \<open>(w << 1) | carry\<close> reduced to 8 bits, sets the Carry flag (bit 0) to bit 7 of the
  operand as it was, the Zero flag (bit 1) and the Negative flag (bit 7) from the byte
  written back, and changes nothing else. The operand \<open>0x80\<close> with the Carry clear gives
  the byte 0 with Carry and Zero set.
\<close>

theorem rol_writes_back_and_flags:
  "snd (rol c w) = push_bit 1 w OR of_bool (bit (SR c) 0)
   \<and> uint (snd (rol c w)) = (2 * uint w + of_bool (bit (SR c) 0)) mod 256
   \<and> bit (SR (fst (rol c w))) n =
       (if n = 0 then bit w 7
        else if n = 1 then snd (rol c w) = 0
        else if n = 7 then bit (snd (rol c w)) 7
        else bit (SR c) n)
   \<and> (fst (rol c w))\<lparr>SR := SR c\<rparr> = c
   \<and> snd (rol (clc c) 0x80) = 0
   \<and> bit (SR (fst (rol (clc c) 0x80))) 0
   \<and> bit (SR (fst (rol (clc c) 0x80))) 1"
  by (intro conjI rol_operand rol_operand_uint rol_flags rol_registers rol_example)

section \<open>Decoding the addressing mode\<close>

lemma lo_op_eq: "(word_of_int (uint (opcode :: Word) AND 0x0f) :: Word) = opcode AND 0x0f"
  by (simp add: of_int_and_eq)

lemma hi_op_bit0:
  "bit (word_of_int (drop_bit 4 (uint (opcode :: Word) AND 0xf0)) :: Word) 0 = bit opcode 4"
  by (simp add: bit_simps)

lemma addressing_mode_eq:
  "addressing_mode opcode =
     word_of_int (drop_bit 1 (uint (opcode AND 0x0f) - 1) OR of_bool (bit opcode 4))"
  unfolding addressing_mode_def Let_def uint_and_1 hi_op_bit0 lo_op_eq ..

lemma addressing_mode_recognized:
  "recognized (opcode AND 0x0f) \<Longrightarrow> addressing_mode opcode \<le> 7"
  by (auto simp add: addressing_mode_eq recognized_def)

lemma Word_le_7:
  "(mode :: Word) \<le> 7 \<Longrightarrow>
     mode = 0 \<or> mode = 1 \<or> mode = 2 \<or> mode = 3 \<or> mode = 4 \<or> mode = 5 \<or> mode = 6 \<or> mode = 7"
  by unat_arith

lemma resolve_operand_assigned:
  assumes "mode \<le> 7"
  shows "resolve_operand m mode \<noteq> Inl Unassigned"
  using Word_le_7 [OF assms]
  by (auto simp add: resolve_operand_def Let_def read_long_def memory_at_def
      split: sum.splits if_splits)

lemma normal_dispatch_assigned:
  assumes "resolve_operand m (addressing_mode opcode) \<noteq> Inl Unassigned"
  shows "normal_dispatch m opcode \<noteq> Inl Unassigned"
  using assms by (auto simp add: normal_dispatch_def Let_def split: sum.splits prod.splits)

text \<open>
  C10. For every opcode whose low nibble is one of 1, 5, 6, 9, \<open>0xD\<close>, \<open>0xE\<close>, the
  addressing mode that \<open>normal_dispatch\<close> computes is at most 7, so one of the eight
  cases of the switch assigns \<open>address\<close> and \<open>width\<close>: neither the switch nor
  \<open>normal_dispatch\<close> reads an unassigned local. \<open>execute_instruction\<close> calls
  \<open>normal_dispatch\<close> for these opcodes only, so no step does.
\<close>

theorem recognized_mode_assigned:
  assumes "recognized (word_of_int (uint opcode AND 0x0f))"
  shows "addressing_mode opcode \<le> 7
    \<and> resolve_operand m (addressing_mode opcode) \<noteq> Inl Unassigned
    \<and> normal_dispatch m opcode \<noteq> Inl Unassigned
    \<and> execute_instruction m \<noteq> Inl Unassigned"
proof -
  from assms have 1: "addressing_mode opcode \<le> 7"
    unfolding lo_op_eq by (rule addressing_mode_recognized)
  then have 2: "resolve_operand m (addressing_mode opcode) \<noteq> Inl Unassigned"
    by (rule resolve_operand_assigned)
  then have 3: "normal_dispatch m opcode \<noteq> Inl Unassigned"
    by (rule normal_dispatch_assigned)
  have 4: "execute_instruction m \<noteq> Inl Unassigned"
  proof (cases "recognized (read_word m (PC (cpu m)) AND 0x0f)")
    case True
    then have "normal_dispatch m (read_word m (PC (cpu m))) \<noteq> Inl Unassigned"
      by (intro normal_dispatch_assigned resolve_operand_assigned addressing_mode_recognized)
    with True show ?thesis
      by (simp add: execute_instruction_def Let_def lo_op_eq)
  next
    case False
    then show ?thesis
      by (simp add: execute_instruction_def Let_def lo_op_eq)
  qed
  from 1 2 3 4 show ?thesis
    by simp
qed

theorem recognized_mode_assigned_witness:
  "recognized (word_of_int (uint (0x6D :: Word) AND 0x0f))
   \<and> addressing_mode 0x6D \<le> 7
   \<and> resolve_operand zero_machine (addressing_mode 0x6D) \<noteq> Inl Unassigned
   \<and> normal_dispatch zero_machine 0x6D \<noteq> Inl Unassigned
   \<and> execute_instruction zero_machine \<noteq> Inl Unassigned"
proof -
  have h: "recognized (word_of_int (uint (0x6D :: Word) AND 0x0f))"
    by (simp add: recognized_def)
  show ?thesis
    using h recognized_mode_assigned [OF h, of zero_machine] by simp
qed

section \<open>Zero page indexed by X\<close>

lemma addressing_mode_zero_page_x:
  assumes "opcode AND 0x0f = 0x05 \<or> opcode AND 0x0f = 0x06" and "bit opcode 4"
  shows "addressing_mode opcode = 3"
  using assms by (auto simp add: addressing_mode_eq)

lemma resolve_operand_zero_page_x:
  "resolve_operand m 3 = Inr (ucast (read_word m (PC (cpu m) + 1) + X (cpu m)), 2)"
  by (simp add: resolve_operand_def Let_def)

lemma unat_ucast_Word: "unat (ucast (w :: Word) :: 16 word) = unat w"
proof -
  have "unat w < 2 ^ 8"
    using unsigned_less [of w, where ?'a = nat] by simp
  then have "unat w < 2 ^ 16"
    by simp
  then have "take_bit 16 (unat w) = unat w"
    by (simp only: take_bit_nat_eq_self_iff)
  then show ?thesis
    by (simp add: unsigned_ucast_eq)
qed

lemma ucast_Word_page_zero: "(ucast (w :: Word) :: 16 word) < 0x0100"
proof -
  have "unat w < 256"
    using unsigned_less [of w, where ?'a = nat] by simp
  then show ?thesis
    by (simp add: word_less_nat_alt unat_ucast_Word)
qed

lemma unat_ucast_Word_sum:
  "unat (ucast ((b :: Word) + x) :: 16 word) = (unat b + unat x) mod 256"
  by (simp add: unat_ucast_Word unat_word_ariths)

text \<open>
  C6. For an opcode of the zero-page-indexed-X group (low nibble 5 or 6, odd high
  nibble), whatever the byte at \<open>PC + 1\<close> and whatever \<open>X\<close>: the effective address is
  the 8-bit sum of the two, zero-extended to 16 bits; it is the sum modulo 256 and lies
  below \<open>0x0100\<close>. The width is 2.
\<close>

theorem zero_page_x_stays_in_page_zero:
  assumes "opcode AND 0x0f = 0x05 \<or> opcode AND 0x0f = 0x06" and "bit opcode 4"
  shows "resolve_operand m (addressing_mode opcode) =
           Inr (ucast (read_word m (PC (cpu m) + 1) + X (cpu m)), 2)
    \<and> (ucast (read_word m (PC (cpu m) + 1) + X (cpu m)) :: 16 word) < 0x0100
    \<and> unat (ucast (read_word m (PC (cpu m) + 1) + X (cpu m)) :: 16 word) =
        (unat (read_word m (PC (cpu m) + 1)) + unat (X (cpu m))) mod 256"
  unfolding addressing_mode_zero_page_x [OF assms]
  by (intro conjI resolve_operand_zero_page_x ucast_Word_page_zero unat_ucast_Word_sum)

theorem zero_page_x_stays_in_page_zero_witness:
  "((0x75 :: Word) AND 0x0f = 0x05 \<or> (0x75 :: Word) AND 0x0f = 0x06) \<and> bit (0x75 :: Word) 4
   \<and> resolve_operand (immediate_machine 0x75) (addressing_mode 0x75) = Inr (0x0001, 2)
   \<and> resolve_operand
        ((immediate_machine 0x75)\<lparr>cpu := (cpu (immediate_machine 0x75))\<lparr>X := 0xFF\<rparr>\<rparr>)
        (addressing_mode 0x75) = Inr (0x0000, 2)"
proof -
  have h1: "(0x75 :: Word) AND 0x0f = 0x05 \<or> (0x75 :: Word) AND 0x0f = 0x06"
    by simp
  have h2: "bit (0x75 :: Word) 4"
    by simp
  show ?thesis
    using h1 h2
      zero_page_x_stays_in_page_zero [OF h1 h2, of "immediate_machine 0x75"]
      zero_page_x_stays_in_page_zero [OF h1 h2,
        of "(immediate_machine 0x75)\<lparr>cpu := (cpu (immediate_machine 0x75))\<lparr>X := 0xFF\<rparr>\<rparr>"]
    by (simp add: immediate_machine_def read_word_def)
qed

section \<open>Add with carry\<close>

lemma assign_flags_sel:
  "PC (assign_flags c f b) = PC c" "AC (assign_flags c f b) = AC c"
  "X (assign_flags c f b) = X c" "Y (assign_flags c f b) = Y c"
  "SP (assign_flags c f b) = SP c"
  by (simp_all add: assign_flags_eq)

lemma adc_AC: "AC (adc c w) = AC c + w + of_bool (bit (SR c) 0)"
  by (simp add: adc_def Let_def update_zero_flag_eq update_negative_flag_eq Flag_Carry_def
      uint_and_1)

lemma adc_flags:
  "bit (SR (adc c w)) n =
     (if n = 1 then AC (adc c w) = 0
      else if n = 7 then bit (AC (adc c w)) 7
      else bit (SR c) n)"
proof -
  have "bit (SR (adc c w)) n =
      (if bit (128 :: Word) n then bit (AC (adc c w)) 7
       else if bit (2 :: Word) n then AC (adc c w) = 0
       else bit (SR c) n)"
    by (simp add: adc_def Let_def update_zero_flag_def update_negative_flag_def
        assign_flags_bit assign_flags_sel Flag_Zero_def Flag_Negative_def uint_and_bit7
        del: bit_numeral_word_iff)
  then show ?thesis
    unfolding bit_Word_flag by auto
qed

lemmas cpu_defs =
  adc_def ora_def eor_def transfer_def update_zero_flag_def update_negative_flag_def
  assign_flags_def Flag_Carry_def Flag_Zero_def Flag_Negative_def Let_def

lemmas machine_defs =
  execute_instruction_def normal_dispatch_def resolve_operand_def addressing_mode_def
  recognized_def read_long_def read_word_def memory_at_def memory_size_def

text \<open>
  C1. What \<open>adc\<close> does instead: it leaves the Carry flag (bit 0) and the Overflow flag
  (bit 6) as they were, for every accumulator, operand and carry-in. With accumulator
  \<open>0x50\<close>, operand \<open>0x50\<close> and all flags clear, the accumulator becomes \<open>0xA0\<close> and the
  status register \<open>0x80\<close>: Negative is set, Overflow is not.
\<close>

theorem adc_leaves_carry_and_overflow:
  "bit (SR (adc c w)) 0 = bit (SR c) 0
   \<and> bit (SR (adc c w)) 6 = bit (SR c) 6
   \<and> AC (adc adc_example 0x50) = 0xA0
   \<and> SR (adc adc_example 0x50) = 0x80"
proof -
  have "AC (adc adc_example 0x50) = 0xA0" "SR (adc adc_example 0x50) = 0x80"
    by (simp_all add: adc_example_def cpu_defs)
  then show ?thesis
    by (simp add: adc_flags)
qed

section \<open>Transfers and loads\<close>

lemma transfer_dst: "load (transfer c dst v) dst = v"
  by (cases dst) (simp_all add: transfer_def Let_def update_zero_flag_eq update_negative_flag_eq)

lemma transfer_flags:
  "bit (SR (transfer c dst v)) n =
     (if n = 1 then AC (store c dst v) = 0
      else if n = 7 then bit (AC (store c dst v)) 7
      else bit (SR c) n)"
proof -
  have SR_store: "SR (store c dst v) = SR c"
    by (cases dst) simp_all
  have "bit (SR (transfer c dst v)) n =
      (if bit (128 :: Word) n then bit (AC (store c dst v)) 7
       else if bit (2 :: Word) n then AC (store c dst v) = 0
       else bit (SR c) n)"
    by (simp add: transfer_def Let_def update_zero_flag_def update_negative_flag_def
        assign_flags_bit assign_flags_sel Flag_Zero_def Flag_Negative_def uint_and_bit7
        SR_store del: bit_numeral_word_iff)
  then show ?thesis
    unfolding bit_Word_flag by auto
qed

text \<open>
  C3. What \<open>transfer\<close> does instead: the destination holds \<open>v\<close>, and Zero (bit 1) and
  Negative (bit 7) are computed from the accumulator as it is after the store, which is
  \<open>v\<close> only when the destination is the accumulator (or the source was). With 1 in the
  accumulator and all flags clear, \<open>ldx\<close> of 0 leaves 0 in \<open>X\<close> and the status register
  0: Zero is not set.
\<close>

theorem transfer_flags_from_accumulator:
  "load (transfer c dst v) dst = v
   \<and> bit (SR (transfer c dst v)) n =
       (if n = 1 then AC (store c dst v) = 0
        else if n = 7 then bit (AC (store c dst v)) 7
        else bit (SR c) n)
   \<and> X (ldx ldx_example 0x00) = 0x00
   \<and> AC (ldx ldx_example 0x00) = 0x01
   \<and> SR (ldx ldx_example 0x00) = 0x00"
proof -
  have "X (ldx ldx_example 0x00) = 0x00" "AC (ldx ldx_example 0x00) = 0x01"
    "SR (ldx ldx_example 0x00) = 0x00"
    by (simp_all add: ldx_def ldx_example_def cpu_defs)
  then show ?thesis
    by (simp add: transfer_dst transfer_flags)
qed

section \<open>One step\<close>

text \<open>
  C2. What a step does instead: whatever the opcode, it applies \<open>adc\<close>. With 1 in the
  accumulator and the immediate operand 1, the opcodes \<open>0x09\<close> and \<open>0x49\<close> both leave 2
  in the accumulator, where \<open>ora\<close> gives 1 and \<open>eor\<close> gives 0. \<open>PC\<close> advances by 2.
\<close>

theorem step_applies_adc_for_every_opcode:
  "execute_instruction (immediate_machine 0x09) =
     Inr ((immediate_machine 0x09)
            \<lparr>cpu := \<lparr>PC = 2, AC = 0x02, X = 0, Y = 0, SR = 0, SP = 0\<rparr>\<rparr>)
   \<and> execute_instruction (immediate_machine 0x49) =
     Inr ((immediate_machine 0x49)
            \<lparr>cpu := \<lparr>PC = 2, AC = 0x02, X = 0, Y = 0, SR = 0, SP = 0\<rparr>\<rparr>)
   \<and> AC (adc (cpu (immediate_machine 0x09)) 0x01) = 0x02
   \<and> AC (ora (cpu (immediate_machine 0x09)) 0x01) = 0x01
   \<and> AC (eor (cpu (immediate_machine 0x49)) 0x01) = 0x00"
  by (simp add: immediate_machine_def machine_defs cpu_defs)

text \<open>
  C5. What indexed-indirect resolution does instead: the sum of the operand byte and
  \<open>X\<close> is not reduced to 8 bits. With the operand \<open>0xFF\<close> and \<open>X = 1\<close> the pointer is
  read from \<open>0x0100\<close> and \<open>0x0101\<close> (giving \<open>0x5678\<close>), not from \<open>0x00\<close> and \<open>0x01\<close>
  (which hold \<open>0x1234\<close>), and the step adds the byte at \<open>0x5678\<close>.
\<close>

theorem indexed_indirect_leaves_page_zero:
  "resolve_operand indexed_indirect_machine (addressing_mode 0x61) = Inr (0x5678, 2)
   \<and> read_long indexed_indirect_machine 0x0000 = Inr 0x1234
   \<and> read_long indexed_indirect_machine 0x0100 = Inr 0x5678
   \<and> execute_instruction indexed_indirect_machine =
       Inr (indexed_indirect_machine
              \<lparr>cpu := \<lparr>PC = 0x0202, AC = 0x22, X = 0x01, Y = 0, SR = 0, SP = 0\<rparr>\<rparr>)"
  by (simp add: indexed_indirect_machine_def machine_defs cpu_defs)

lemma read_long_below_top:
  assumes "address \<noteq> 0xFFFF"
  shows "read_long m address =
    Inr (push_bit 8 (ucast (memory m (address + 1))) OR ucast (memory m address))"
proof -
  have "uint address < 2 ^ 16"
    using uint_lt2p [of address] by simp
  moreover have "uint address \<noteq> 65535"
  proof
    assume "uint address = 65535"
    then have "word_of_int (uint address) = (word_of_int 65535 :: 16 word)"
      by (rule arg_cong)
    with assms show False
      by simp
  qed
  ultimately have "uint address + 1 < 65536"
    by simp
  then show ?thesis
    by (simp add: read_long_def memory_at_def memory_size_def of_int_or_eq of_int_push_bit)
qed

text \<open>
  C7. What \<open>read_long\<close> does instead at \<open>0xFFFF\<close>: the high byte is read at index
  65536, past the end of the array. A step reaches this with the absolute-mode opcode
  \<open>0x6D\<close> at \<open>PC = 0xFFFE\<close>.
\<close>

theorem read_long_past_the_end:
  "read_long m 0xFFFF = Inl OutOfBounds
   \<and> execute_instruction top_of_memory_machine = Inl OutOfBounds"
  by (simp add: top_of_memory_machine_def machine_defs cpu_defs)

section \<open>Opcodes outside the recognized groups\<close>

text \<open>
  C4, as stated, fails. \<open>execute_instruction\<close> returns nothing, so all a caller has of a
  step is the state it leaves. At \<open>unimplemented_machine\<close> the opcode at \<open>PC\<close> is
  \<open>0x02\<close>, whose low nibble is not recognized, and the step returns normally with the
  state as it was; the step of \<open>implemented_machine\<close>, whose opcode \<open>0x69\<close> is
  recognized, returns with this very state. Nothing tells the first from the second.
\<close>

theorem unimplemented_opcode_not_reported:
  "\<not> recognized (read_word unimplemented_machine (PC (cpu unimplemented_machine)) AND 0x0f)
   \<and> recognized (read_word implemented_machine (PC (cpu implemented_machine)) AND 0x0f)
   \<and> execute_instruction unimplemented_machine = Inr unimplemented_machine
   \<and> execute_instruction implemented_machine = Inr unimplemented_machine"
  by (simp add: unimplemented_machine_def implemented_machine_def machine_defs cpu_defs)

text \<open>
  C4, amended. For every machine state whose opcode at \<open>PC\<close> has a low nibble outside
  1, 5, 6, 9, \<open>0xD\<close>, \<open>0xE\<close>, a step returns normally and leaves the whole state as it
  was: memory, \<open>PC\<close>, every register and every flag. It reports nothing.
\<close>

theorem unrecognized_opcode_leaves_state:
  assumes "\<not> recognized (read_word m (PC (cpu m)) AND 0x0f)"
  shows "execute_instruction m = Inr m"
  using assms by (simp add: execute_instruction_def Let_def lo_op_eq)

theorem unrecognized_opcode_leaves_state_witness:
  "\<not> recognized (read_word zero_machine (PC (cpu zero_machine)) AND 0x0f)
   \<and> execute_instruction zero_machine = Inr zero_machine"
proof -
  have h: "\<not> recognized (read_word zero_machine (PC (cpu zero_machine)) AND 0x0f)"
    by (simp add: zero_machine_def read_word_def recognized_def)
  show ?thesis
    using h unrecognized_opcode_leaves_state [OF h] by simp
qed

end
